theory Spec2Isabelle
  imports Main "HOL-Library.Sublist"
begin

section \<open>Python strings\<close>

text \<open>
  A Python \<open>str\<close> is modelled as a \<open>string\<close> whose characters are the code points
  below 256. \<open>isspace\<close> and \<open>lower_char\<close> follow \<open>str.isspace\<close> and \<open>str.lower\<close> on
  that range.
\<close>

definition isspace :: "char \<Rightarrow> bool" where
  "isspace c =
     (let n = (of_char c :: nat)
      in (9 \<le> n \<and> n \<le> 13) \<or> (28 \<le> n \<and> n \<le> 32) \<or> n = 133 \<or> n = 160)"

definition lower_char :: "char \<Rightarrow> char" where
  "lower_char c =
     (let n = (of_char c :: nat)
      in if (65 \<le> n \<and> n \<le> 90) \<or> (192 \<le> n \<and> n \<le> 222 \<and> n \<noteq> 215)
         then char_of (n + 32) else c)"

text \<open>\<open>s.lower()\<close>\<close>

definition py_lower :: "string \<Rightarrow> string" where
  "py_lower s = map lower_char s"

text \<open>\<open>s.strip()\<close>\<close>

definition py_strip :: "string \<Rightarrow> string" where
  "py_strip s = rev (dropWhile isspace (rev (dropWhile isspace s)))"

text \<open>\<open>needle in haystack\<close>\<close>

fun py_in :: "string \<Rightarrow> string \<Rightarrow> bool" where
  "py_in needle [] = (needle = [])"
| "py_in needle (c # cs) = (prefix needle (c # cs) \<or> py_in needle cs)"

text \<open>\<open>any(k in s for k in keys)\<close>\<close>

definition any_in :: "string list \<Rightarrow> string \<Rightarrow> bool" where
  "any_in keys s = list_ex (\<lambda>k. py_in k s) keys"

text \<open>\<open>s.split(d)\<close> for a one-character separator\<close>

fun py_split :: "char \<Rightarrow> string \<Rightarrow> string list" where
  "py_split d [] = [[]]"
| "py_split d (c # cs) =
     (if c = d then [] # py_split d cs
      else (case py_split d cs of
              [] \<Rightarrow> [[c]]
            | w # ws \<Rightarrow> (c # w) # ws))"

text \<open>\<open>sep.join(parts)\<close>\<close>

fun py_join :: "string \<Rightarrow> string list \<Rightarrow> string" where
  "py_join sep [] = []"
| "py_join sep [x] = x"
| "py_join sep (x # y # ys) = x @ sep @ py_join sep (y # ys)"

text \<open>\<open>s.replace(old, '')\<close> for a non-empty \<open>old\<close>: leftmost, non-overlapping.\<close>

function py_remove :: "string \<Rightarrow> string \<Rightarrow> string" where
  "py_remove old [] = []"
| "py_remove old (c # cs) =
     (if old \<noteq> [] \<and> prefix old (c # cs)
      then py_remove old (drop (length old) (c # cs))
      else c # py_remove old cs)"
  by pat_completeness auto
termination
  by (relation "measure (\<lambda>(old, s). length s)") (auto simp: neq_Nil_conv)

text \<open>Truthiness of an \<open>Optional[str]\<close>: neither \<open>None\<close> nor the empty string.\<close>

fun truthy :: "string option \<Rightarrow> bool" where
  "truthy None = False"
| "truthy (Some s) = (s \<noteq> [])"

section \<open>External processes\<close>

text \<open>
  Every \<open>subprocess.run\<close> call is an invocation: the command as passed (an argument
  list or a shell string), the \<open>shell\<close> and \<open>check\<close> flags and the timeout in seconds.
  What the operating system does with an invocation is a parameter of the model: a
  \<open>world\<close> maps the invocations made so far and the new one to what happens. The
  environment variables passed along are not modelled.
\<close>

datatype cmd = Argv "string list" | ShellStr string

datatype invocation =
  Invocation (inv_cmd: cmd) (inv_shell: bool) (inv_check: bool) (inv_timeout: nat)

datatype process_event =
    Exits int string string
  | TimesOut
  | FailsToLaunch string
  | Interrupted

type_synonym world = "invocation list \<Rightarrow> invocation \<Rightarrow> process_event"

datatype py_exception =
    TimeoutExpired
  | CalledProcessError int string string
  | OSError string
  | KeyboardInterrupt

text \<open>\<open>except Exception\<close> catches everything here but \<open>KeyboardInterrupt\<close>.\<close>

fun is_Exception :: "py_exception \<Rightarrow> bool" where
  "is_Exception KeyboardInterrupt = False"
| "is_Exception _ = True"

text \<open>A \<open>CompletedProcess\<close>: return code, stdout, stderr (\<open>capture_output, text\<close>).\<close>

datatype completed = Completed (returncode: int) (stdout: string) (stderr: string)

section \<open>The installer's state\<close>

datatype GPUVendor = NVIDIA | AMD | INTEL | VIRTUAL | UNKNOWN

datatype VMType = VMWARE | VIRTUALBOX | KVM | QEMU | HYPERV | XEN | PARALLELS | NONE

record hardware_info =
  gpu_vendor :: GPUVendor
  gpu_model :: string
  vm_type :: VMType

text \<open>The two switches of \<open>InstallationConfig\<close> that the functions below read.\<close>

record config =
  dry_run :: bool
  auto_yes :: bool

text \<open>What \<open>input()\<close> may deliver; an exhausted list is end of input.\<close>

datatype stdin_event = Line string | CtrlC

record gaming_setup =
  config :: config
  hardware_info :: hardware_info
  failed_operations :: "string list"
  spawned :: "invocation list"
  stdin :: "stdin_event list"

text \<open>
  What \<open>subprocess.run\<close> hands back for an event: with \<open>check=True\<close> a non-zero
  return code is raised as \<open>CalledProcessError\<close>.
\<close>

fun run_result :: "bool \<Rightarrow> process_event \<Rightarrow> py_exception + completed" where
  "run_result check (Exits rc out err) =
     (if check \<and> rc \<noteq> 0 then Inl (CalledProcessError rc out err)
      else Inr (Completed rc out err))"
| "run_result check TimesOut = Inl TimeoutExpired"
| "run_result check (FailsToLaunch m) = Inl (OSError m)"
| "run_result check Interrupted = Inl KeyboardInterrupt"

text \<open>\<open>subprocess.run\<close>: the invocation is recorded, then the world decides.\<close>

definition subprocess_run ::
  "world \<Rightarrow> invocation \<Rightarrow> gaming_setup \<Rightarrow> (py_exception + completed) \<times> gaming_setup" where
  "subprocess_run w call s =
     (run_result (inv_check call) (w (spawned s) call),
      s\<lparr>spawned := spawned s @ [call]\<rparr>)"

text \<open>The probes' call: \<open>subprocess.run(argv, capture_output=True, text=True, timeout=5)\<close>.\<close>

definition probe :: "string list \<Rightarrow> invocation" where
  "probe argv = Invocation (Argv argv) False False 5"

text \<open>
  The state \<open>__init__\<close> builds: a default \<open>HardwareInfo\<close>, an empty failure list
  and nothing spawned yet.
\<close>

definition new_setup :: "config \<Rightarrow> stdin_event list \<Rightarrow> gaming_setup" where
  "new_setup cfg keyboard =
     \<lparr>config = cfg,
      hardware_info = \<lparr>gpu_vendor = UNKNOWN, gpu_model = ''Unknown'', vm_type = NONE\<rparr>,
      failed_operations = [],
      spawned = [],
      stdin = keyboard\<rparr>"

section \<open>Virtualization detection\<close>

text \<open>\<open>virt_map.get(key, default)\<close> of \<open>detect_virtualization\<close>.\<close>

definition virt_map :: "(string \<times> string) list" where
  "virt_map =
     [(''vmware'', ''VMware''),
      (''kvm'', ''KVM''),
      (''qemu'', ''QEMU''),
      (''virtualbox'', ''VirtualBox''),
      (''oracle'', ''VirtualBox''),
      (''microsoft'', ''Hyper-V''),
      (''xen'', ''Xen''),
      (''bochs'', ''Bochs''),
      (''parallels'', ''Parallels'')]"

definition virt_map_get :: "string \<Rightarrow> string \<Rightarrow> string" where
  "virt_map_get key dflt = (case map_of virt_map key of Some v \<Rightarrow> v | None \<Rightarrow> dflt)"

text \<open>
  The bodies of the three \<open>try\<close> blocks after their \<open>subprocess.run\<close>. The bare
  \<open>except: pass\<close> turns any exception into "no answer".
\<close>

fun method1 :: "py_exception + completed \<Rightarrow> string option" where
  "method1 (Inl e) = None"
| "method1 (Inr r) =
     (let virt_type = py_strip (stdout r)
      in if virt_type \<noteq> [] \<and> virt_type \<noteq> ''none''
         then Some (virt_map_get (py_lower virt_type) virt_type)
         else None)"

fun method2 :: "py_exception + completed \<Rightarrow> string option" where
  "method2 (Inl e) = None"
| "method2 (Inr r) =
     (let dmesg = py_lower (stdout r)
      in if py_in ''vmware'' dmesg then Some ''VMware''
         else if py_in ''virtualbox'' dmesg then Some ''VirtualBox''
         else if py_in ''hypervisor detected'' dmesg then Some ''VM''
         else None)"

fun method3 :: "py_exception + completed \<Rightarrow> string option" where
  "method3 (Inl e) = None"
| "method3 (Inr r) =
     (let lspci = py_lower (stdout r)
      in if py_in ''vmware'' lspci then Some ''VMware''
         else if py_in ''virtualbox'' lspci then Some ''VirtualBox''
         else if py_in ''qxl'' lspci \<or> py_in ''virtio'' lspci then Some ''KVM/QEMU''
         else None)"

text \<open>
  \<open>detect_virtualization\<close> (lines 1420-1478): the three methods in turn; the first
  answer is returned, with the invocations made so far recorded in the state.
\<close>

definition detect_virtualization :: "world \<Rightarrow> gaming_setup \<Rightarrow> string option \<times> gaming_setup" where
  "detect_virtualization w s =
     (let (r1, s1) = subprocess_run w (probe [''systemd-detect-virt'']) s
      in case method1 r1 of
           Some v \<Rightarrow> (Some v, s1)
         | None \<Rightarrow>
             (let (r2, s2) = subprocess_run w (probe [''dmesg'']) s1
              in case method2 r2 of
                   Some v \<Rightarrow> (Some v, s2)
                 | None \<Rightarrow>
                     (let (r3, s3) = subprocess_run w (probe [''lspci'']) s2
                      in (method3 r3, s3))))"

section \<open>Command execution\<close>

text \<open>\<open>str(n)\<close> for a non-negative integer, used in the timeout message.\<close>

fun str_nat :: "nat \<Rightarrow> string" where
  "str_nat n =
     (if n < 10 then [char_of (48 + n)]
      else str_nat (n div 10) @ [char_of (48 + n mod 10)])"

declare str_nat.simps [simp del]

text \<open>
  \<open>run_command(cmd, description, check, shell, env, timeout)\<close> (lines 725-806). The result is the
  returned triple \<open>(success, stdout, stderr)\<close>, or the exception that leaves the
  function: \<open>except Exception\<close> does not catch \<open>KeyboardInterrupt\<close>. Console and log
  output are not part of the state.
\<close>

definition run_command ::
  "world \<Rightarrow> cmd \<Rightarrow> string \<Rightarrow> bool \<Rightarrow> bool \<Rightarrow> nat \<Rightarrow> gaming_setup
     \<Rightarrow> (py_exception + bool \<times> string \<times> string) \<times> gaming_setup" where
  "run_command w c description check shell timeout s =
     (if dry_run (config s) then (Inr (True, [], []), s)
      else
        (case subprocess_run w (Invocation c shell check timeout) s of
           (Inr r, s1) \<Rightarrow>
             if returncode r = 0 then (Inr (True, stdout r, stderr r), s1)
             else (Inr (False, stdout r, stderr r), s1)
         | (Inl TimeoutExpired, s1) \<Rightarrow>
             (let msg = ''TIMEOUT: '' @ description @ '' (exceeded '' @ str_nat timeout
                          @ '' seconds)''
              in (Inr (False, [], msg),
                  s1\<lparr>failed_operations := failed_operations s1 @ [msg]\<rparr>))
         | (Inl (CalledProcessError rc out err), s1) \<Rightarrow>
             (let msg = ''FAILED: '' @ description
              in (Inr (False, out, err),
                  s1\<lparr>failed_operations := failed_operations s1 @ [msg]\<rparr>))
         | (Inl (OSError m), s1) \<Rightarrow>
             (let msg = ''EXCEPTION: '' @ description @ '' - '' @ m
              in (Inr (False, [], m),
                  s1\<lparr>failed_operations := failed_operations s1 @ [msg]\<rparr>))
         | (Inl KeyboardInterrupt, s1) \<Rightarrow> (Inl KeyboardInterrupt, s1)))"

section \<open>User interaction\<close>

text \<open>
  The \<open>while True\<close> loop of \<open>confirm\<close>: it reads until an answer is recognised;
  end of input and an interrupt both answer no.
\<close>

fun read_answer :: "stdin_event list \<Rightarrow> bool \<times> stdin_event list" where
  "read_answer [] = (False, [])"
| "read_answer (CtrlC # rest) = (False, rest)"
| "read_answer (Line l # rest) =
     (let response = py_lower l
      in if response = ''y'' \<or> response = ''yes'' then (True, rest)
         else if response = ''n'' \<or> response = ''no'' then (False, rest)
         else read_answer rest)"

text \<open>\<open>confirm\<close> (lines 812-846).\<close>

definition confirm :: "string \<Rightarrow> gaming_setup \<Rightarrow> bool \<times> gaming_setup" where
  "confirm question s =
     (if auto_yes (config s) then (True, s)
      else if dry_run (config s) then (True, s)
      else (let (answer, rest) = read_answer (stdin s)
            in (answer, s\<lparr>stdin := rest\<rparr>)))"

section \<open>Package queries\<close>

text \<open>
  The queries of lines 913-1055. Each is one probe; its bare \<open>except\<close> turns any
  exception into \<open>False\<close> or \<open>None\<close>.
\<close>

definition is_package_installed :: "world \<Rightarrow> string \<Rightarrow> gaming_setup \<Rightarrow> bool \<times> gaming_setup" where
  "is_package_installed w package_name s =
     (case subprocess_run w (probe [''dpkg'', ''-l'', package_name]) s of
        (Inr r, s1) \<Rightarrow> (returncode r = 0 \<and> py_in ''ii'' (stdout r), s1)
      | (Inl e, s1) \<Rightarrow> (False, s1))"

definition get_package_version ::
  "world \<Rightarrow> string \<Rightarrow> gaming_setup \<Rightarrow> string option \<times> gaming_setup" where
  "get_package_version w package_name s =
     (case subprocess_run w (probe [''dpkg-query'', ''-W'', ''-f=${Version}'', package_name]) s of
        (Inr r, s1) \<Rightarrow> (if returncode r = 0 then Some (py_strip (stdout r)) else None, s1)
      | (Inl e, s1) \<Rightarrow> (None, s1))"

text \<open>
  \<open>line.split(':')[1].strip()\<close>; an \<open>IndexError\<close> would be swallowed by the bare
  \<open>except\<close> of the caller, which then returns \<open>None\<close>.
\<close>

definition second_field :: "string \<Rightarrow> string option" where
  "second_field line =
     (case py_split (CHR '':'') line of
        a # b # rest \<Rightarrow> Some (py_strip b)
      | _ \<Rightarrow> None)"

text \<open>The \<open>for line in out.split('\n'): if key in line: return ...\<close> loop.\<close>

definition first_keyed_field :: "string \<Rightarrow> string \<Rightarrow> string option" where
  "first_keyed_field key out =
     (case find (py_in key) (py_split (CHR 0x0A) out) of
        Some line \<Rightarrow> second_field line
      | None \<Rightarrow> None)"

definition get_available_version ::
  "world \<Rightarrow> string \<Rightarrow> gaming_setup \<Rightarrow> string option \<times> gaming_setup" where
  "get_available_version w package_name s =
     (case subprocess_run w (probe [''apt-cache'', ''policy'', package_name]) s of
        (Inr r, s1) \<Rightarrow>
          (if returncode r = 0 then first_keyed_field ''Candidate:'' (stdout r) else None, s1)
      | (Inl e, s1) \<Rightarrow> (None, s1))"

definition is_flatpak_installed :: "world \<Rightarrow> string \<Rightarrow> gaming_setup \<Rightarrow> bool \<times> gaming_setup" where
  "is_flatpak_installed w app_id s =
     (case subprocess_run w (probe [''flatpak'', ''list'', ''--app'']) s of
        (Inr r, s1) \<Rightarrow> (py_in app_id (stdout r), s1)
      | (Inl e, s1) \<Rightarrow> (False, s1))"

definition get_flatpak_version ::
  "world \<Rightarrow> string \<Rightarrow> gaming_setup \<Rightarrow> string option \<times> gaming_setup" where
  "get_flatpak_version w app_id s =
     (case subprocess_run w (probe [''flatpak'', ''info'', app_id]) s of
        (Inr r, s1) \<Rightarrow>
          (if returncode r = 0 then first_keyed_field ''Version:'' (stdout r) else None, s1)
      | (Inl e, s1) \<Rightarrow> (None, s1))"

definition check_updates_available ::
  "world \<Rightarrow> string \<Rightarrow> gaming_setup
     \<Rightarrow> (bool \<times> string option \<times> string option) \<times> gaming_setup" where
  "check_updates_available w package_name s =
     (let (installed, s1) = get_package_version w package_name s;
          (available, s2) = get_available_version w package_name s1
      in if truthy installed \<and> truthy available \<and> installed \<noteq> available
         then ((True, installed, available), s2)
         else ((False, installed, available), s2))"

section \<open>Installation prompt\<close>

text \<open>
  The native-package block of \<open>prompt_install_or_update\<close>: it yields
  \<open>(is_installed, current_version, available_version, update_available)\<close>.
\<close>

definition check_package ::
  "world \<Rightarrow> string option \<Rightarrow> gaming_setup
     \<Rightarrow> (bool \<times> string option \<times> string option \<times> bool) \<times> gaming_setup" where
  "check_package w package_name s =
     (case package_name of
        None \<Rightarrow> ((False, None, None, False), s)
      | Some p \<Rightarrow>
          if p = [] then ((False, None, None, False), s)
          else
            (let (is_installed, s1) = is_package_installed w p s
             in if is_installed
                then (let (current_version, s2) = get_package_version w p s1;
                          (available_version, s3) = get_available_version w p s2
                      in ((True, current_version, available_version,
                           current_version \<noteq> available_version), s3))
                else ((False, None, None, False), s1)))"

text \<open>The Flatpak block: it yields \<open>(is_installed, current_version)\<close>.\<close>

definition check_flatpak ::
  "world \<Rightarrow> string option \<Rightarrow> bool \<Rightarrow> string option \<Rightarrow> gaming_setup
     \<Rightarrow> (bool \<times> string option) \<times> gaming_setup" where
  "check_flatpak w flatpak_id is_installed current_version s =
     (case flatpak_id of
        None \<Rightarrow> ((is_installed, current_version), s)
      | Some f \<Rightarrow>
          if f = [] \<or> is_installed then ((is_installed, current_version), s)
          else
            (let (installed, s1) = is_flatpak_installed w f s
             in if installed
                then (let (v, s2) = get_flatpak_version w f s1 in ((True, v), s2))
                else ((False, current_version), s1)))"

text \<open>
  \<open>prompt_install_or_update\<close> (lines 1066-1119): the answer (\<open>True\<close> is install,
  update or reinstall; \<open>False\<close> is skip) and the state after the queries and the prompt.
\<close>

definition prompt_install_or_update ::
  "world \<Rightarrow> string \<Rightarrow> string option \<Rightarrow> string option \<Rightarrow> gaming_setup
     \<Rightarrow> bool \<times> gaming_setup" where
  "prompt_install_or_update w software_name package_name flatpak_id s =
     (if auto_yes (config s) then (True, s)
      else
        (let ((is_installed, current_version, available_version, update_available), s1) =
               check_package w package_name s;
             ((is_installed', current_version'), s2) =
               check_flatpak w flatpak_id is_installed current_version s1
         in if is_installed'
            then (if update_available \<and> truthy available_version
                  then confirm (''Update '' @ software_name @ ''?'') s2
                  else confirm (''Reinstall '' @ software_name @ ''?'') s2)
            else confirm (''Install '' @ software_name @ ''?'') s2))"

section \<open>GPU detection\<close>

text \<open>
  \<open>_extract_gpu_model\<close> (lines 1368-1389) and \<open>_vm_type_str_to_enum\<close> (lines
  1391-1418), named without their leading underscore.
\<close>

definition extract_gpu_model :: "string \<Rightarrow> string" where
  "extract_gpu_model lspci_line =
     (let parts = py_split (CHR '':'') lspci_line
      in if length parts \<ge> 3
         then (let model = py_strip (py_join '':'' (drop 2 parts));
                   model = py_strip (py_remove ''vga compatible controller:'' model);
                   model = py_strip (py_remove ''3d controller:'' model);
                   model = py_strip (py_remove ''display controller:'' model)
               in take 80 model)
         else ''Unknown Model'')"

definition vm_type_str_to_enum :: "string \<Rightarrow> VMType" where
  "vm_type_str_to_enum vm_str =
     (let vm_lower = py_lower vm_str
      in if py_in ''vmware'' vm_lower then VMWARE
         else if py_in ''virtualbox'' vm_lower \<or> py_in ''oracle'' vm_lower then VIRTUALBOX
         else if py_in ''kvm'' vm_lower then KVM
         else if py_in ''qemu'' vm_lower then QEMU
         else if py_in ''hyper-v'' vm_lower \<or> py_in ''microsoft'' vm_lower then HYPERV
         else if py_in ''xen'' vm_lower then XEN
         else if py_in ''parallels'' vm_lower then PARALLELS
         else NONE)"

definition vm_indicators :: "string list" where
  "vm_indicators = [''vmware'', ''virtualbox'', ''qxl'', ''virtio'', ''svga3d'']"

definition amd_indicators :: "string list" where
  "amd_indicators = [''amd'', ''radeon'', ''ati'']"

definition gpu_terms :: "string list" where
  "gpu_terms = [''graphics'', ''hd'', ''iris'', ''uhd'', ''arc'']"

text \<open>\<open>gpu_info = ' '.join(gpu_lines).lower()\<close>\<close>

definition gpu_info_of :: "string list \<Rightarrow> string" where
  "gpu_info_of gpu_lines = py_lower (py_join '' '' gpu_lines)"

text \<open>
  The model-extraction loops: the first line that matches sets \<open>gpu_model\<close>; with no
  such line the field keeps its value.
\<close>

definition set_model :: "(string \<Rightarrow> bool) \<Rightarrow> string list \<Rightarrow> hardware_info \<Rightarrow> hardware_info" where
  "set_model matches gpu_lines hw =
     (case find matches gpu_lines of
        Some line \<Rightarrow> hw\<lparr>gpu_model := extract_gpu_model line\<rparr>
      | None \<Rightarrow> hw)"

text \<open>The four vendor tests of \<open>detect_gpu\<close>, in the order it makes them.\<close>

definition virtual_gpu_found :: "string \<Rightarrow> string \<Rightarrow> bool" where
  "virtual_gpu_found gpu_info gl_info =
     list_ex (\<lambda>vm_indicator. py_in vm_indicator gpu_info \<or> py_in vm_indicator gl_info)
       vm_indicators"

definition nvidia_found :: "string \<Rightarrow> string \<Rightarrow> bool" where
  "nvidia_found gpu_info gl_info = (py_in ''nvidia'' gpu_info \<or> py_in ''nvidia'' gl_info)"

definition amd_found :: "string \<Rightarrow> string \<Rightarrow> bool" where
  "amd_found gpu_info gl_info =
     list_ex (\<lambda>amd_indicator. py_in amd_indicator gpu_info \<or> py_in amd_indicator gl_info)
       amd_indicators"

definition intel_found :: "string \<Rightarrow> bool" where
  "intel_found gpu_info = (py_in ''intel'' gpu_info \<and> any_in gpu_terms gpu_info)"

text \<open>
  The vendor chain of \<open>detect_gpu\<close>, from the filtered lines and the renderer line:
  the returned string and the updated hardware record.
\<close>

definition classify_gpu ::
  "string list \<Rightarrow> string \<Rightarrow> hardware_info \<Rightarrow> string \<times> hardware_info" where
  "classify_gpu gpu_lines gl_info hw =
     (let gpu_info = gpu_info_of gpu_lines
      in if virtual_gpu_found gpu_info gl_info
         then (''generic'', hw\<lparr>gpu_vendor := VIRTUAL\<rparr>)
         else if nvidia_found gpu_info gl_info
         then (''nvidia'', set_model (py_in ''nvidia'') gpu_lines (hw\<lparr>gpu_vendor := NVIDIA\<rparr>))
         else if amd_found gpu_info gl_info
         then (''amd'', set_model (any_in amd_indicators) gpu_lines (hw\<lparr>gpu_vendor := AMD\<rparr>))
         else if intel_found gpu_info
         then (''intel'', set_model (py_in ''intel'') gpu_lines (hw\<lparr>gpu_vendor := INTEL\<rparr>))
         else if gpu_lines \<noteq> []
         then (''generic'', hw\<lparr>gpu_vendor := UNKNOWN\<rparr>)
         else (''unknown'', hw\<lparr>gpu_vendor := UNKNOWN\<rparr>))"

text \<open>The lines of the lowered listing that name a graphics device class.\<close>

definition filter_gpu_lines :: "string \<Rightarrow> string list" where
  "filter_gpu_lines lspci_output =
     filter (any_in [''vga'', ''3d'', ''display'']) (py_split (CHR 0x0A) lspci_output)"

text \<open>The renderer line of \<open>glxinfo\<close>, lowered; empty when there is none.\<close>

fun renderer_line :: "py_exception + completed \<Rightarrow> string" where
  "renderer_line (Inl e) = []"
| "renderer_line (Inr r) =
     (if returncode r = 0
      then (case find (py_in ''OpenGL renderer'') (py_split (CHR 0x0A) (stdout r)) of
              Some line \<Rightarrow> py_lower line
            | None \<Rightarrow> [])
      else [])"

text \<open>The hardware scan of \<open>detect_gpu\<close>, reached when no virtual machine was found.\<close>

definition scan_gpu_hardware ::
  "world \<Rightarrow> gaming_setup \<Rightarrow> (py_exception + string) \<times> gaming_setup" where
  "scan_gpu_hardware w s =
     (case subprocess_run w (probe [''lspci'']) s of
        (Inl e, s1) \<Rightarrow>
          if is_Exception e
          then (Inr ''unknown'',
                s1\<lparr>hardware_info := (hardware_info s1)\<lparr>gpu_vendor := UNKNOWN\<rparr>\<rparr>)
          else (Inl e, s1)
      | (Inr r, s1) \<Rightarrow>
          (let gpu_lines = filter_gpu_lines (py_lower (stdout r));
               (g, s2) = subprocess_run w (probe [''glxinfo'']) s1;
               (ret, hw) = classify_gpu gpu_lines (renderer_line g) (hardware_info s2)
           in (Inr ret, s2\<lparr>hardware_info := hw\<rparr>)))"

text \<open>
  \<open>detect_gpu\<close> (lines 1254-1366): the returned string, or the exception that leaves
  the function, and the state with \<open>hardware_info\<close> updated.
\<close>

definition detect_gpu ::
  "world \<Rightarrow> gaming_setup \<Rightarrow> (py_exception + string) \<times> gaming_setup" where
  "detect_gpu w s =
     (let (vm_type', s1) = detect_virtualization w s
      in case vm_type' of
           None \<Rightarrow> scan_gpu_hardware w s1
         | Some v \<Rightarrow>
             if v \<noteq> []
             then (Inr (py_lower v),
                   s1\<lparr>hardware_info :=
                        (hardware_info s1)\<lparr>vm_type := vm_type_str_to_enum v,
                                           gpu_vendor := VIRTUAL\<rparr>\<rparr>)
             else scan_gpu_hardware w s1)"

section \<open>Facts about the string operations\<close>

lemma py_in_iff_sublist: "py_in needle hay \<longleftrightarrow> sublist needle hay"
  by (induction hay) (auto simp: sublist_Cons_right)



lemma set_py_strip: "set s \<subseteq> set (py_strip s) \<union> {c. isspace c}"
proof -
  let ?t = "dropWhile isspace s"
  have "set s = set (takeWhile isspace s) \<union> set ?t"
    by (metis set_append takeWhile_dropWhile_id)
  moreover have "set (takeWhile isspace s) \<subseteq> {c. isspace c}"
    by (auto dest: set_takeWhileD)
  moreover have "set ?t = set (takeWhile isspace (rev ?t)) \<union> set (dropWhile isspace (rev ?t))"
    by (metis set_append set_rev takeWhile_dropWhile_id)
  moreover have "set (takeWhile isspace (rev ?t)) \<subseteq> {c. isspace c}"
    by (auto dest: set_takeWhileD)
  ultimately show ?thesis
    by (auto simp: py_strip_def)
qed

lemma py_strip_subset: "set (py_strip s) \<subseteq> set s"
  by (auto simp: py_strip_def dest!: set_dropWhileD)



lemma py_in_trans: "py_in a b \<Longrightarrow> py_in b c \<Longrightarrow> py_in a c"
  using sublist_order.order_trans by (auto simp: py_in_iff_sublist)

lemma py_in_join: "line \<in> set parts \<Longrightarrow> py_in line (py_join sep parts)"
proof (induction sep parts rule: py_join.induct)
  case (1 sep)
  then show ?case by simp
next
  case (2 sep x)
  then show ?case by (simp add: py_in_iff_sublist)
next
  case (3 sep x y ys)
  show ?case
  proof (cases "line = x")
    case True
    then show ?thesis by (simp add: py_in_iff_sublist)
  next
    case False
    with 3 have "sublist line (py_join sep (y # ys))"
      by (simp add: py_in_iff_sublist)
    then have "sublist line ((x @ sep) @ py_join sep (y # ys))"
      using sublist_append by blast
    then show ?thesis by (simp add: py_in_iff_sublist)
  qed
qed

lemma py_in_lower: "py_in m s \<Longrightarrow> py_in (py_lower m) (py_lower s)"
  by (simp add: py_in_iff_sublist py_lower_def map_mono_sublist)

lemma marker_in_gpu_info:
  assumes "line \<in> set gpu_lines" and "py_in m line" and "py_lower m = m"
  shows "py_in m (gpu_info_of gpu_lines)"
proof -
  have "py_in m (py_join '' '' gpu_lines)"
    using assms(1,2) py_in_join py_in_trans by blast
  then show ?thesis
    using py_in_lower assms(3) by (fastforce simp: gpu_info_of_def)
qed

lemma gpu_vendor_set_model [simp]: "gpu_vendor (set_model p ls hw) = gpu_vendor hw"
  by (simp add: set_model_def split: option.splits)

lemma amd_marker_in_gpu_info:
  assumes "line \<in> set gpu_lines" and "any_in amd_indicators line"
  shows "amd_found (gpu_info_of gpu_lines) gl_info"
proof -
  have low: "py_lower ''amd'' = ''amd''" "py_lower ''radeon'' = ''radeon''" "py_lower ''ati'' = ''ati''"
    by code_simp+
  from assms(2) consider "py_in ''amd'' line" | "py_in ''radeon'' line" | "py_in ''ati'' line"
    by (auto simp: any_in_def amd_indicators_def)
  then show ?thesis
    using marker_in_gpu_info [OF assms(1)] low
    by cases (auto simp: amd_found_def amd_indicators_def)
qed

lemma py_split_nonempty: "py_split d s \<noteq> []"
  by (induction s) (auto split: list.splits)

lemma py_split_field: "d \<notin> set a \<Longrightarrow> py_split d (a @ d # b) = a # py_split d b"
  by (induction a) (auto split: list.splits simp: py_split_nonempty)

lemma py_strip_leading_space: "isspace c \<Longrightarrow> py_strip (c # s) = py_strip s"
  by (simp add: py_strip_def)

lemma py_strip_keeps:
  assumes "c \<in> set s" and "\<not> isspace c"
  shows "c \<in> set (py_strip s)"
  using assms set_py_strip [of s] by auto

lemma second_field_candidate:
  assumes "CHR '':'' \<notin> set epoch"
  shows "second_field (''  Candidate: '' @ epoch @ '':'' @ rest) = Some (py_strip epoch)"
proof -
  have sp: "isspace (CHR '' '')"
    by (simp add: isspace_def)
  have "''  Candidate: '' @ epoch @ '':'' @ rest
        = ''  Candidate'' @ CHR '':'' # ((CHR '' '' # epoch) @ CHR '':'' # rest)"
    by simp
  moreover have "CHR '':'' \<notin> set ''  Candidate''"
    by simp
  moreover have "CHR '':'' \<notin> set (CHR '' '' # epoch)"
    using assms by simp
  ultimately have "py_split (CHR '':'') (''  Candidate: '' @ epoch @ '':'' @ rest)
        = ''  Candidate'' # (CHR '' '' # epoch) # py_split (CHR '':'') rest"
    using py_split_field by metis
  then show ?thesis
    using sp by (simp add: second_field_def py_strip_leading_space)
qed

section \<open>Facts about virtualization detection\<close>





lemma detect_virtualization_steps:
  "detect_virtualization w s =
     (let t = spawned s;
          p1 = probe [''systemd-detect-virt''];
          p2 = probe [''dmesg''];
          p3 = probe [''lspci''];
          r1 = run_result False (w t p1);
          r2 = run_result False (w (t @ [p1]) p2);
          r3 = run_result False (w (t @ [p1, p2]) p3)
      in case method1 r1 of
           Some v \<Rightarrow> (Some v, s\<lparr>spawned := t @ [p1]\<rparr>)
         | None \<Rightarrow>
             (case method2 r2 of
                Some v \<Rightarrow> (Some v, s\<lparr>spawned := t @ [p1, p2]\<rparr>)
              | None \<Rightarrow> (method3 r3, s\<lparr>spawned := t @ [p1, p2, p3]\<rparr>)))"
  by (simp add: detect_virtualization_def subprocess_run_def probe_def Let_def
           split: option.splits)

lemma virt_map_get_nonempty: "dflt \<noteq> [] \<Longrightarrow> virt_map_get key dflt \<noteq> []"
  by (auto simp: virt_map_get_def virt_map_def split: option.splits if_splits)

lemma virt_map_get_default:
  "key \<notin> fst ` set virt_map \<Longrightarrow> virt_map_get key dflt = dflt"
  by (simp add: virt_map_get_def map_of_eq_None_iff [THEN iffD2])

lemma method1_nonempty: "method1 r = Some v \<Longrightarrow> v \<noteq> []"
  by (cases r) (auto simp: Let_def virt_map_get_nonempty split: if_splits)

lemma method2_nonempty: "method2 r = Some v \<Longrightarrow> v \<noteq> []"
  by (cases r) (auto simp: Let_def split: if_splits)

lemma method3_nonempty: "method3 r = Some v \<Longrightarrow> v \<noteq> []"
  by (cases r) (auto simp: Let_def split: if_splits)

lemma detect_virtualization_nonempty:
  assumes "detect_virtualization w s = (Some v, s1)"
  shows "v \<noteq> []"
proof -
  from assms have "(\<exists>r. method1 r = Some v) \<or> (\<exists>r. method2 r = Some v)
                     \<or> (\<exists>r. method3 r = Some v)"
    by (auto simp: detect_virtualization_steps Let_def split: option.splits)
  then show ?thesis
    using method1_nonempty method2_nonempty method3_nonempty by blast
qed



section \<open>GPU classification\<close>

text \<open>
  C2. The vendor chain depends only on the filtered lines and the renderer line, and
  takes the first test that succeeds, in the order virtual, NVIDIA, AMD, Intel, generic
  (some filtered line), unknown (no filtered line). In particular AMD precedes Intel:
  when some filtered line carries an AMD marker and some filtered line carries \<open>intel\<close>,
  and no higher level (virtual, NVIDIA) applies, the vendor is AMD.
\<close>

theorem classify_gpu_precedence:
  fixes gpu_lines :: "string list" and gl_info :: string and hw :: hardware_info
  assumes r: "classify_gpu gpu_lines gl_info hw = (ret, hw')"
    and g: "gpu_info = gpu_info_of gpu_lines"
  shows
    "(virtual_gpu_found gpu_info gl_info \<longrightarrow> ret = ''generic'' \<and> gpu_vendor hw' = VIRTUAL)
     \<and> (\<not> virtual_gpu_found gpu_info gl_info \<and> nvidia_found gpu_info gl_info
          \<longrightarrow> ret = ''nvidia'' \<and> gpu_vendor hw' = NVIDIA)
     \<and> (\<not> virtual_gpu_found gpu_info gl_info \<and> \<not> nvidia_found gpu_info gl_info
          \<and> amd_found gpu_info gl_info
          \<longrightarrow> ret = ''amd'' \<and> gpu_vendor hw' = AMD)
     \<and> (\<not> virtual_gpu_found gpu_info gl_info \<and> \<not> nvidia_found gpu_info gl_info
          \<and> \<not> amd_found gpu_info gl_info \<and> intel_found gpu_info
          \<longrightarrow> ret = ''intel'' \<and> gpu_vendor hw' = INTEL)
     \<and> (\<not> virtual_gpu_found gpu_info gl_info \<and> \<not> nvidia_found gpu_info gl_info
          \<and> \<not> amd_found gpu_info gl_info \<and> \<not> intel_found gpu_info \<and> gpu_lines \<noteq> []
          \<longrightarrow> ret = ''generic'' \<and> gpu_vendor hw' = UNKNOWN)
     \<and> (\<not> virtual_gpu_found gpu_info gl_info \<and> \<not> nvidia_found gpu_info gl_info
          \<and> \<not> amd_found gpu_info gl_info \<and> \<not> intel_found gpu_info \<and> gpu_lines = []
          \<longrightarrow> ret = ''unknown'' \<and> gpu_vendor hw' = UNKNOWN)
     \<and> (\<not> virtual_gpu_found gpu_info gl_info \<and> \<not> nvidia_found gpu_info gl_info
          \<and> (\<exists>l \<in> set gpu_lines. any_in amd_indicators l)
          \<and> (\<exists>l \<in> set gpu_lines. py_in ''intel'' l)
          \<longrightarrow> ret = ''amd'' \<and> gpu_vendor hw' = AMD)"
proof -
  have amd: "amd_found gpu_info gl_info"
    if "\<exists>l \<in> set gpu_lines. any_in amd_indicators l"
    using that amd_marker_in_gpu_info g by blast
  have chain: "(ret, hw') =
      (if virtual_gpu_found gpu_info gl_info
       then (''generic'', hw\<lparr>gpu_vendor := VIRTUAL\<rparr>)
       else if nvidia_found gpu_info gl_info
       then (''nvidia'', set_model (py_in ''nvidia'') gpu_lines (hw\<lparr>gpu_vendor := NVIDIA\<rparr>))
       else if amd_found gpu_info gl_info
       then (''amd'', set_model (any_in amd_indicators) gpu_lines (hw\<lparr>gpu_vendor := AMD\<rparr>))
       else if intel_found gpu_info
       then (''intel'', set_model (py_in ''intel'') gpu_lines (hw\<lparr>gpu_vendor := INTEL\<rparr>))
       else if gpu_lines \<noteq> []
       then (''generic'', hw\<lparr>gpu_vendor := UNKNOWN\<rparr>)
       else (''unknown'', hw\<lparr>gpu_vendor := UNKNOWN\<rparr>))"
    using r unfolding classify_gpu_def Let_def g by (rule sym)
  show ?thesis
  proof (cases "virtual_gpu_found gpu_info gl_info")
    case True
    with chain show ?thesis by simp
  next
    case novm: False
    show ?thesis
    proof (cases "nvidia_found gpu_info gl_info")
      case True
      with novm chain show ?thesis by simp
    next
      case nonv: False
      show ?thesis
      proof (cases "amd_found gpu_info gl_info")
        case True
        with novm nonv chain show ?thesis by simp
      next
        case noamd: False
        with amd have "\<not> (\<exists>l \<in> set gpu_lines. any_in amd_indicators l)" by blast
        with novm nonv noamd chain show ?thesis by (auto split: if_splits)
      qed
    qed
  qed
qed

theorem classify_gpu_precedence_witness:
  "fst (classify_gpu
          [''00:02.0 vga compatible controller: intel corporation uhd graphics 630'',
           ''03:00.0 display controller: advanced micro devices, inc. [amd/ati] navi 23'']
          [] (hardware_info (new_setup \<lparr>dry_run = False, auto_yes = False\<rparr> []))) = ''amd''
   \<and> gpu_vendor (snd (classify_gpu
          [''00:02.0 vga compatible controller: intel corporation uhd graphics 630'',
           ''03:00.0 display controller: advanced micro devices, inc. [amd/ati] navi 23'']
          [] (hardware_info (new_setup \<lparr>dry_run = False, auto_yes = False\<rparr> [])))) = AMD"
proof -
  let ?ls = "[''00:02.0 vga compatible controller: intel corporation uhd graphics 630'',
              ''03:00.0 display controller: advanced micro devices, inc. [amd/ati] navi 23'']"
  let ?hw = "hardware_info (new_setup \<lparr>dry_run = False, auto_yes = False\<rparr> [])"
  have h: "\<not> virtual_gpu_found (gpu_info_of ?ls) []"
          "\<not> nvidia_found (gpu_info_of ?ls) []"
          "\<exists>l \<in> set ?ls. any_in amd_indicators l"
          "\<exists>l \<in> set ?ls. py_in ''intel'' l"
    by code_simp+
  have r: "classify_gpu ?ls [] ?hw = (fst (classify_gpu ?ls [] ?hw), snd (classify_gpu ?ls [] ?hw))"
    by simp
  show ?thesis
    using classify_gpu_precedence [OF r refl] h by blast
qed

text \<open>
  C8. The virtual, NVIDIA and AMD tests read the filtered text and the renderer line;
  the Intel test reads the filtered text only. With a device line that names no vendor
  and a renderer line that carries \<open>intel\<close> and \<open>graphics\<close>, no virtual-GPU, NVIDIA or
  AMD marker is present in either text, and the vendor is \<open>UNKNOWN\<close> (\<open>generic\<close>), not
  Intel. On the line \<open>lspci\<close> prints for an Intel adapter the chain does not reach the
  Intel test at all: \<open>ati\<close> occurs in \<open>compatible\<close> and in \<open>corporation\<close>, and the vendor
  is AMD.
\<close>

theorem classify_gpu_intel_renderer_ignored:
  "\<not> virtual_gpu_found (gpu_info_of [''00:02.0 display controller: device 8086:46a6 (rev 0c)''])
        ''opengl renderer string: mesa intel(r) uhd graphics 620 (kbl gt2)''
   \<and> \<not> nvidia_found (gpu_info_of [''00:02.0 display controller: device 8086:46a6 (rev 0c)''])
        ''opengl renderer string: mesa intel(r) uhd graphics 620 (kbl gt2)''
   \<and> \<not> amd_found (gpu_info_of [''00:02.0 display controller: device 8086:46a6 (rev 0c)''])
        ''opengl renderer string: mesa intel(r) uhd graphics 620 (kbl gt2)''
   \<and> py_in ''intel'' ''opengl renderer string: mesa intel(r) uhd graphics 620 (kbl gt2)''
   \<and> py_in ''graphics'' ''opengl renderer string: mesa intel(r) uhd graphics 620 (kbl gt2)''
   \<and> classify_gpu [''00:02.0 display controller: device 8086:46a6 (rev 0c)'']
        ''opengl renderer string: mesa intel(r) uhd graphics 620 (kbl gt2)''
        (hardware_info (new_setup \<lparr>dry_run = False, auto_yes = False\<rparr> []))
       = (''generic'', \<lparr>gpu_vendor = UNKNOWN, gpu_model = ''Unknown'', vm_type = NONE\<rparr>)
   \<and> intel_found
        (gpu_info_of [''00:02.0 vga compatible controller: intel corporation uhd graphics 620 (rev 07)''])
   \<and> fst (classify_gpu
        [''00:02.0 vga compatible controller: intel corporation uhd graphics 620 (rev 07)'']
        ''opengl renderer string: mesa intel(r) uhd graphics 620 (kbl gt2)''
        (hardware_info (new_setup \<lparr>dry_run = False, auto_yes = False\<rparr> []))) = ''amd''
   \<and> gpu_vendor (snd (classify_gpu
        [''00:02.0 vga compatible controller: intel corporation uhd graphics 620 (rev 07)'']
        ''opengl renderer string: mesa intel(r) uhd graphics 620 (kbl gt2)''
        (hardware_info (new_setup \<lparr>dry_run = False, auto_yes = False\<rparr> [])))) = AMD"
  by code_simp

text \<open>
  A consequence of the AMD marker \<open>ati\<close>: it occurs inside the PCI class name
  \<open>vga compatible controller\<close>. So whenever a filtered line carries that class name
  and no virtual-GPU or \<open>nvidia\<close> marker is present, the vendor is AMD, whatever adapter
  the line describes.
\<close>

theorem classify_gpu_vga_line:
  assumes l: "line \<in> set gpu_lines"
    and vga: "py_in ''vga compatible controller'' line"
    and novm: "\<not> virtual_gpu_found (gpu_info_of gpu_lines) gl_info"
    and nonv: "\<not> nvidia_found (gpu_info_of gpu_lines) gl_info"
  shows "fst (classify_gpu gpu_lines gl_info hw) = ''amd''
         \<and> gpu_vendor (snd (classify_gpu gpu_lines gl_info hw)) = AMD"
proof -
  have "py_in ''ati'' ''vga compatible controller''"
    by code_simp
  then have "py_in ''ati'' line"
    using vga by (rule py_in_trans)
  then have "any_in amd_indicators line"
    by (simp add: any_in_def amd_indicators_def)
  with l have "amd_found (gpu_info_of gpu_lines) gl_info"
    by (rule amd_marker_in_gpu_info)
  with novm nonv show ?thesis
    by (simp add: classify_gpu_def Let_def)
qed

theorem classify_gpu_vga_line_witness:
  "fst (classify_gpu [''00:02.0 vga compatible controller: intel corporation uhd graphics 630'']
          [] (hardware_info (new_setup \<lparr>dry_run = False, auto_yes = False\<rparr> []))) = ''amd''
   \<and> gpu_vendor (snd (classify_gpu
          [''00:02.0 vga compatible controller: intel corporation uhd graphics 630'']
          [] (hardware_info (new_setup \<lparr>dry_run = False, auto_yes = False\<rparr> [])))) = AMD"
proof -
  let ?ls = "[''00:02.0 vga compatible controller: intel corporation uhd graphics 630'']"
  have l: "''00:02.0 vga compatible controller: intel corporation uhd graphics 630'' \<in> set ?ls"
    by simp
  have h: "py_in ''vga compatible controller''
             ''00:02.0 vga compatible controller: intel corporation uhd graphics 630''"
          "\<not> virtual_gpu_found (gpu_info_of ?ls) []"
          "\<not> nvidia_found (gpu_info_of ?ls) []"
    by code_simp+
  show ?thesis
    using classify_gpu_vga_line [OF l h] by simp
qed

section \<open>Virtual machines and the GPU scan\<close>

text \<open>
  C3. Whenever \<open>detect_virtualization\<close> returns a classification, \<open>detect_gpu\<close> returns
  at once with vendor \<open>VIRTUAL\<close> and spawns nothing itself: the invocations of the run
  are exactly those the virtualization probes made, whatever the world would answer to
  a further \<open>lspci\<close> or \<open>glxinfo\<close>. (The third virtualization probe is itself an
  \<open>lspci\<close> call; it belongs to the probe chain of C1, not to the GPU scan.)
\<close>

theorem detect_gpu_vm_short_circuit:
  assumes "detect_virtualization w s = (Some v, s1)"
  shows "fst (detect_gpu w s) = Inr (py_lower v)
         \<and> gpu_vendor (hardware_info (snd (detect_gpu w s))) = VIRTUAL
         \<and> vm_type (hardware_info (snd (detect_gpu w s))) = vm_type_str_to_enum v
         \<and> spawned (snd (detect_gpu w s)) = spawned s1"
  using assms detect_virtualization_nonempty [OF assms]
  by (simp add: detect_gpu_def)

theorem detect_gpu_vm_short_circuit_witness:
  "fst (detect_gpu
         (\<lambda>t c. if c = probe [''lspci'']
                 then Exits 0 ''00:0f.0 VGA compatible controller: VMware SVGA II Adapter'' []
                 else FailsToLaunch ''No such file or directory'')
         (new_setup \<lparr>dry_run = False, auto_yes = False\<rparr> [])) = Inr ''vmware''
   \<and> gpu_vendor (hardware_info (snd (detect_gpu
         (\<lambda>t c. if c = probe [''lspci'']
                 then Exits 0 ''00:0f.0 VGA compatible controller: VMware SVGA II Adapter'' []
                 else FailsToLaunch ''No such file or directory'')
         (new_setup \<lparr>dry_run = False, auto_yes = False\<rparr> [])))) = VIRTUAL
   \<and> spawned (snd (detect_gpu
         (\<lambda>t c. if c = probe [''lspci'']
                 then Exits 0 ''00:0f.0 VGA compatible controller: VMware SVGA II Adapter'' []
                 else FailsToLaunch ''No such file or directory'')
         (new_setup \<lparr>dry_run = False, auto_yes = False\<rparr> [])))
       = [probe [''systemd-detect-virt''], probe [''dmesg''], probe [''lspci'']]"
proof -
  let ?w = "\<lambda>(t :: invocation list) c.
              if c = probe [''lspci'']
              then Exits 0 ''00:0f.0 VGA compatible controller: VMware SVGA II Adapter'' []
              else FailsToLaunch ''No such file or directory''"
  let ?s = "new_setup \<lparr>dry_run = False, auto_yes = False\<rparr> []"
  have dv: "detect_virtualization ?w ?s
            = (Some ''VMware'',
               ?s\<lparr>spawned := [probe [''systemd-detect-virt''], probe [''dmesg''],
                               probe [''lspci'']]\<rparr>)"
    by code_simp
  have low: "py_lower ''VMware'' = ''vmware''"
    by code_simp
  show ?thesis
    using detect_gpu_vm_short_circuit [OF dv] low by simp
qed

text \<open>
  C7 (as amended). When the first probe prints a token that, stripped, is neither empty
  nor \<open>none\<close> and whose lower-case form is not a key of \<open>virt_map\<close> (which also holds
  \<open>bochs\<close>), \<open>detect_virtualization\<close> returns that stripped token itself, and \<open>detect_gpu\<close>
  returns it in lower case with vendor \<open>VIRTUAL\<close>. \<open>VMType\<close> has no member for other
  hypervisors: the recorded \<open>vm_type\<close> is what \<open>_vm_type_str_to_enum\<close> gives, which is
  \<open>NONE\<close> when the token contains none of the vendor names.
\<close>

theorem detect_virtualization_keeps_unknown_token:
  assumes ev: "w (spawned s) (probe [''systemd-detect-virt'']) = Exits rc out err"
    and tok: "py_strip out \<noteq> []" "py_strip out \<noteq> ''none''"
    and unk: "py_lower (py_strip out) \<notin> fst ` set virt_map"
  shows "fst (detect_virtualization w s) = Some (py_strip out)
         \<and> fst (detect_gpu w s) = Inr (py_lower (py_strip out))
         \<and> gpu_vendor (hardware_info (snd (detect_gpu w s))) = VIRTUAL
         \<and> vm_type (hardware_info (snd (detect_gpu w s))) = vm_type_str_to_enum (py_strip out)
         \<and> (\<not> any_in [''vmware'', ''virtualbox'', ''oracle'', ''kvm'', ''qemu'', ''hyper-v'',
                        ''microsoft'', ''xen'', ''parallels''] (py_lower (py_strip out))
              \<longrightarrow> vm_type (hardware_info (snd (detect_gpu w s))) = NONE)"
proof -
  have m1: "method1 (run_result False (w (spawned s) (probe [''systemd-detect-virt''])))
            = Some (py_strip out)"
    using ev tok unk by (simp add: Let_def virt_map_get_default)
  then have dv: "detect_virtualization w s
                 = (Some (py_strip out), s\<lparr>spawned := spawned s @ [probe [''systemd-detect-virt'']]\<rparr>)"
    by (simp add: detect_virtualization_steps Let_def)
  have none: "vm_type_str_to_enum (py_strip out) = NONE"
    if "\<not> any_in [''vmware'', ''virtualbox'', ''oracle'', ''kvm'', ''qemu'', ''hyper-v'',
                    ''microsoft'', ''xen'', ''parallels''] (py_lower (py_strip out))"
    using that by (simp add: vm_type_str_to_enum_def any_in_def Let_def)
  show ?thesis
    using dv tok none by (simp add: detect_gpu_def)
qed

theorem detect_virtualization_keeps_unknown_token_witness:
  "fst (detect_virtualization (\<lambda>t c. Exits 0 ''lxc\<newline>'' [])
          (new_setup \<lparr>dry_run = False, auto_yes = False\<rparr> [])) = Some ''lxc''
   \<and> fst (detect_gpu (\<lambda>t c. Exits 0 ''lxc\<newline>'' [])
          (new_setup \<lparr>dry_run = False, auto_yes = False\<rparr> [])) = Inr ''lxc''
   \<and> gpu_vendor (hardware_info (snd (detect_gpu (\<lambda>t c. Exits 0 ''lxc\<newline>'' [])
          (new_setup \<lparr>dry_run = False, auto_yes = False\<rparr> [])))) = VIRTUAL"
proof -
  let ?w = "\<lambda>(t :: invocation list) (c :: invocation). Exits 0 ''lxc\<newline>'' []"
  let ?s = "new_setup \<lparr>dry_run = False, auto_yes = False\<rparr> []"
  have ev: "?w (spawned ?s) (probe [''systemd-detect-virt'']) = Exits 0 ''lxc\<newline>'' []"
    by simp
  have tok: "py_strip ''lxc\<newline>'' = ''lxc''" "py_lower ''lxc'' = ''lxc''"
    by code_simp+
  have unk: "py_lower (py_strip ''lxc\<newline>'') \<notin> fst ` set virt_map"
    by code_simp
  show ?thesis
    using detect_virtualization_keeps_unknown_token [OF ev _ _ unk] tok by simp
qed

theorem detect_virtualization_keeps_unknown_token_counterexample:
  "fst (detect_virtualization (\<lambda>t c. Exits 0 ''docker\<newline>'' [])
          (new_setup \<lparr>dry_run = False, auto_yes = False\<rparr> [])) = Some ''docker''
   \<and> vm_type (hardware_info (snd (detect_gpu (\<lambda>t c. Exits 0 ''docker\<newline>'' [])
          (new_setup \<lparr>dry_run = False, auto_yes = False\<rparr> [])))) = NONE
   \<and> fst (detect_virtualization (\<lambda>t c. Exits 0 ''bochs\<newline>'' [])
          (new_setup \<lparr>dry_run = False, auto_yes = False\<rparr> [])) = Some ''Bochs''"
  by code_simp

section \<open>The command executor\<close>

text \<open>
  C4 (as amended). Outside dry-run, a timeout, a failure to launch and a non-zero exit
  under \<open>check=True\<close> each append exactly one entry to \<open>failed_operations\<close> and return
  failure; a non-zero exit under \<open>check=False\<close> returns failure and appends nothing; a
  zero exit returns success and appends nothing. An interrupt leaves the function as
  \<open>KeyboardInterrupt\<close> with the list unchanged. Each such call spawns exactly one process.
\<close>

theorem run_command_failure_ledger:
  assumes live: "\<not> dry_run (config s)"
    and r: "run_command w c description check shell timeout s = (res, s')"
    and ev: "w (spawned s) (Invocation c shell check timeout) = e"
  shows
    "(e = TimesOut
        \<longrightarrow> (\<exists>out err. res = Inr (False, out, err))
            \<and> failed_operations s'
                = failed_operations s
                  @ [''TIMEOUT: '' @ description @ '' (exceeded '' @ str_nat timeout
                       @ '' seconds)''])
     \<and> (\<forall>m. e = FailsToLaunch m
        \<longrightarrow> (\<exists>out err. res = Inr (False, out, err))
            \<and> failed_operations s'
                = failed_operations s @ [''EXCEPTION: '' @ description @ '' - '' @ m])
     \<and> (\<forall>rc out err. e = Exits rc out err \<and> rc \<noteq> 0 \<and> check
        \<longrightarrow> res = Inr (False, out, err)
            \<and> failed_operations s' = failed_operations s @ [''FAILED: '' @ description])
     \<and> (\<forall>rc out err. e = Exits rc out err \<and> rc \<noteq> 0 \<and> \<not> check
        \<longrightarrow> res = Inr (False, out, err) \<and> failed_operations s' = failed_operations s)
     \<and> (\<forall>out err. e = Exits 0 out err
        \<longrightarrow> res = Inr (True, out, err) \<and> failed_operations s' = failed_operations s)
     \<and> (e = Interrupted
        \<longrightarrow> res = Inl KeyboardInterrupt \<and> failed_operations s' = failed_operations s)
     \<and> spawned s' = spawned s @ [Invocation c shell check timeout]"
proof (cases e)
  case (Exits rc out err)
  show ?thesis
  proof (cases "rc = 0")
    case True
    with Exits live r ev show ?thesis
      by (auto simp: run_command_def subprocess_run_def)
  next
    case False
    with Exits live r ev show ?thesis
      by (cases check) (auto simp: run_command_def subprocess_run_def)
  qed
next
  case TimesOut
  with live r ev show ?thesis
    by (auto simp: run_command_def subprocess_run_def Let_def)
next
  case (FailsToLaunch m)
  with live r ev show ?thesis
    by (auto simp: run_command_def subprocess_run_def Let_def)
next
  case Interrupted
  with live r ev show ?thesis
    by (auto simp: run_command_def subprocess_run_def)
qed

theorem run_command_failure_ledger_witness:
  "failed_operations (snd (run_command (\<lambda>t c. TimesOut) (Argv [''apt-get'', ''install'', ''-y'', ''steam''])
       ''Installing Steam'' True False 300
       (new_setup \<lparr>dry_run = False, auto_yes = False\<rparr> [])))
     = [''TIMEOUT: Installing Steam (exceeded 300 seconds)'']
   \<and> failed_operations (snd (run_command (\<lambda>t c. Exits 100 [] ''E: Unable to locate package steam'')
       (Argv [''apt-get'', ''install'', ''-y'', ''steam''])
       ''Installing Steam'' True False 300
       (new_setup \<lparr>dry_run = False, auto_yes = False\<rparr> [])))
     = [''FAILED: Installing Steam'']
   \<and> failed_operations (snd (run_command (\<lambda>t c. Exits 0 ''done'' [])
       (Argv [''apt-get'', ''install'', ''-y'', ''steam''])
       ''Installing Steam'' True False 300
       (new_setup \<lparr>dry_run = False, auto_yes = False\<rparr> [])))
     = []"
proof -
  let ?s = "new_setup \<lparr>dry_run = False, auto_yes = False\<rparr> []"
  let ?c = "Argv [''apt-get'', ''install'', ''-y'', ''steam'']"
  let ?w1 = "\<lambda>(t :: invocation list) (c :: invocation). TimesOut"
  let ?w2 = "\<lambda>(t :: invocation list) (c :: invocation).
               Exits 100 [] ''E: Unable to locate package steam''"
  let ?w3 = "\<lambda>(t :: invocation list) (c :: invocation). Exits 0 ''done'' []"
  have live: "\<not> dry_run (config ?s)" "failed_operations ?s = []"
    by (simp_all add: new_setup_def)
  have n: "str_nat 300 = ''300''"
    by code_simp
  have a: "failed_operations (snd (run_command ?w1 ?c ''Installing Steam'' True False 300 ?s))
           = [''TIMEOUT: Installing Steam (exceeded 300 seconds)'']"
    using run_command_failure_ledger
            [where s = ?s and w = ?w1 and c = ?c and description = "''Installing Steam''"
               and check = True and shell = False and timeout = 300,
             OF live(1) surjective_pairing refl] live(2) n
    by simp
  have b: "failed_operations (snd (run_command ?w2 ?c ''Installing Steam'' True False 300 ?s))
           = [''FAILED: Installing Steam'']"
    using run_command_failure_ledger
            [where s = ?s and w = ?w2 and c = ?c and description = "''Installing Steam''"
               and check = True and shell = False and timeout = 300,
             OF live(1) surjective_pairing refl] live(2)
    by simp
  have c: "failed_operations (snd (run_command ?w3 ?c ''Installing Steam'' True False 300 ?s))
           = []"
    using run_command_failure_ledger
            [where s = ?s and w = ?w3 and c = ?c and description = "''Installing Steam''"
               and check = True and shell = False and timeout = 300,
             OF live(1) surjective_pairing refl] live(2)
    by simp
  show ?thesis using a b c by simp
qed

theorem run_command_failure_ledger_counterexample:
  "fst (run_command (\<lambda>t c. Exits 100 [] ''E: Failed to fetch'')
         (Argv [''apt-get'', ''update'']) ''Testing repository configuration'' False False 300
         (new_setup \<lparr>dry_run = False, auto_yes = False\<rparr> []))
     = Inr (False, [], ''E: Failed to fetch'')
   \<and> failed_operations (snd (run_command (\<lambda>t c. Exits 100 [] ''E: Failed to fetch'')
         (Argv [''apt-get'', ''update'']) ''Testing repository configuration'' False False 300
         (new_setup \<lparr>dry_run = False, auto_yes = False\<rparr> [])))
     = failed_operations (new_setup \<lparr>dry_run = False, auto_yes = False\<rparr> [])"
  by (simp add: run_command_def subprocess_run_def new_setup_def)

text \<open>
  C5. Under \<open>dry_run\<close>, for every command, flag and timeout, \<open>run_command\<close> returns
  success with empty stdout and stderr and the state is the one it was given: nothing is
  spawned and \<open>failed_operations\<close> is unchanged, whatever the world would have done.
\<close>

theorem run_command_dry_run:
  assumes "dry_run (config s)"
  shows "run_command w c description check shell timeout s = (Inr (True, [], []), s)"
  using assms by (simp add: run_command_def)

theorem run_command_dry_run_witness:
  "run_command (\<lambda>t c. FailsToLaunch ''No such file or directory'')
     (Argv [''apt-get'', ''install'', ''-y'', ''steam'']) ''Installing Steam'' True False 300
     (new_setup \<lparr>dry_run = True, auto_yes = False\<rparr> [])
   = (Inr (True, [], []), new_setup \<lparr>dry_run = True, auto_yes = False\<rparr> [])
   \<and> spawned (new_setup \<lparr>dry_run = True, auto_yes = False\<rparr> []) = []
   \<and> failed_operations (new_setup \<lparr>dry_run = True, auto_yes = False\<rparr> []) = []"
proof -
  have "dry_run (config (new_setup \<lparr>dry_run = True, auto_yes = False\<rparr> []))"
    by (simp add: new_setup_def)
  from run_command_dry_run [OF this] show ?thesis
    by (simp add: new_setup_def)
qed

section \<open>The installation decision\<close>

text \<open>
  C9. Under \<open>auto_yes\<close>, for every component and whatever the package queries would
  report, \<open>prompt_install_or_update\<close> answers \<open>True\<close> (install) and leaves the state as
  it was: no input is read and no query is spawned. \<open>confirm\<close> itself answers \<open>True\<close>
  without reading input.
\<close>

theorem prompt_install_or_update_auto_yes:
  assumes "auto_yes (config s)"
  shows "prompt_install_or_update w software_name package_name flatpak_id s = (True, s)
         \<and> confirm question s = (True, s)"
  using assms by (simp add: prompt_install_or_update_def confirm_def)

theorem prompt_install_or_update_auto_yes_witness:
  "prompt_install_or_update (\<lambda>t c. Exits 0 ''ii  steam 1.0 amd64'' [])
     ''Steam'' (Some ''steam'') None
     (new_setup \<lparr>dry_run = False, auto_yes = True\<rparr> [Line ''n''])
   = (True, new_setup \<lparr>dry_run = False, auto_yes = True\<rparr> [Line ''n''])
   \<and> stdin (new_setup \<lparr>dry_run = False, auto_yes = True\<rparr> [Line ''n'']) = [Line ''n'']
   \<and> spawned (new_setup \<lparr>dry_run = False, auto_yes = True\<rparr> [Line ''n'']) = []"
proof -
  have "auto_yes (config (new_setup \<lparr>dry_run = False, auto_yes = True\<rparr> [Line ''n'']))"
    by (simp add: new_setup_def)
  from prompt_install_or_update_auto_yes [OF this] show ?thesis
    by (simp add: new_setup_def)
qed

section \<open>Update detection\<close>

text \<open>
  C6. \<open>check_updates_available\<close> returns the installed version \<open>dpkg-query\<close> reports
  and the candidate version parsed from \<open>apt-cache policy\<close>. When both are present (a
  non-empty string each), an update is reported exactly when the two strings differ, with
  no ordering of versions involved; when either is absent (\<open>None\<close>, or empty), no update
  is reported.
\<close>

theorem check_updates_available_string_inequality:
  assumes "check_updates_available w package_name s = ((update, installed, available), s')"
  shows "installed = fst (get_package_version w package_name s)
         \<and> available = fst (get_available_version w package_name
                              (snd (get_package_version w package_name s)))
         \<and> (\<forall>a b. installed = Some a \<and> a \<noteq> [] \<and> available = Some b \<and> b \<noteq> []
                \<longrightarrow> (update \<longleftrightarrow> a \<noteq> b))
         \<and> (installed = None \<or> installed = Some [] \<or> available = None \<or> available = Some []
                \<longrightarrow> \<not> update)"
proof -
  obtain i s1 where g: "get_package_version w package_name s = (i, s1)"
    by (cases "get_package_version w package_name s")
  obtain a s2 where h: "get_available_version w package_name s1 = (a, s2)"
    by (cases "get_available_version w package_name s1")
  from assms g h have eq: "installed = i" "available = a"
    "update = (truthy i \<and> truthy a \<and> i \<noteq> a)"
    by (auto simp: check_updates_available_def split: if_splits)
  show ?thesis
    using eq g h by (cases i; cases a) auto
qed

theorem check_updates_available_string_inequality_witness:
  "fst (check_updates_available
         (\<lambda>t c. if c = probe [''dpkg-query'', ''-W'', ''-f=${Version}'', ''steam'']
                 then Exits 0 ''1.0'' []
                 else Exits 0 ''steam:\<newline>  Installed: 1.0\<newline>  Candidate: 1.0\<newline>'' [])
         ''steam'' (new_setup \<lparr>dry_run = False, auto_yes = False\<rparr> []))
     = (False, Some ''1.0'', Some ''1.0'')
   \<and> fst (check_updates_available
         (\<lambda>t c. if c = probe [''dpkg-query'', ''-W'', ''-f=${Version}'', ''steam'']
                 then Exits 0 ''1.0'' []
                 else Exits 0 ''steam:\<newline>  Installed: 1.0\<newline>  Candidate: 1.0.1\<newline>'' [])
         ''steam'' (new_setup \<lparr>dry_run = False, auto_yes = False\<rparr> []))
     = (True, Some ''1.0'', Some ''1.0.1'')
   \<and> fst (check_updates_available
         (\<lambda>t c. if c = probe [''dpkg-query'', ''-W'', ''-f=${Version}'', ''steam'']
                 then Exits 0 ''2.0'' []
                 else Exits 0 ''steam:\<newline>  Installed: 2.0\<newline>  Candidate: 1.9\<newline>'' [])
         ''steam'' (new_setup \<lparr>dry_run = False, auto_yes = False\<rparr> []))
     = (True, Some ''2.0'', Some ''1.9'')
   \<and> fst (check_updates_available
         (\<lambda>t c. if c = probe [''dpkg-query'', ''-W'', ''-f=${Version}'', ''steam'']
                 then Exits 0 ''1.0'' []
                 else TimesOut)
         ''steam'' (new_setup \<lparr>dry_run = False, auto_yes = False\<rparr> []))
     = (False, Some ''1.0'', None)"
proof -
  let ?s = "new_setup \<lparr>dry_run = False, auto_yes = False\<rparr> []"
  let ?w1 = "\<lambda>(t :: invocation list) c.
               if c = probe [''dpkg-query'', ''-W'', ''-f=${Version}'', ''steam'']
               then Exits 0 ''1.0'' []
               else Exits 0 ''steam:\<newline>  Installed: 1.0\<newline>  Candidate: 1.0\<newline>'' []"
  let ?w2 = "\<lambda>(t :: invocation list) c.
               if c = probe [''dpkg-query'', ''-W'', ''-f=${Version}'', ''steam'']
               then Exits 0 ''1.0'' []
               else Exits 0 ''steam:\<newline>  Installed: 1.0\<newline>  Candidate: 1.0.1\<newline>'' []"
  let ?w3 = "\<lambda>(t :: invocation list) c.
               if c = probe [''dpkg-query'', ''-W'', ''-f=${Version}'', ''steam'']
               then Exits 0 ''2.0'' []
               else Exits 0 ''steam:\<newline>  Installed: 2.0\<newline>  Candidate: 1.9\<newline>'' []"
  let ?w4 = "\<lambda>(t :: invocation list) c.
               if c = probe [''dpkg-query'', ''-W'', ''-f=${Version}'', ''steam'']
               then Exits 0 ''1.0'' []
               else TimesOut"
  have i1: "fst (get_package_version ?w1 ''steam'' ?s) = Some ''1.0''"
    and a1: "fst (get_available_version ?w1 ''steam'' (snd (get_package_version ?w1 ''steam'' ?s)))
             = Some ''1.0''"
    by code_simp+
  have i2: "fst (get_package_version ?w2 ''steam'' ?s) = Some ''1.0''"
    and a2: "fst (get_available_version ?w2 ''steam'' (snd (get_package_version ?w2 ''steam'' ?s)))
             = Some ''1.0.1''"
    by code_simp+
  have i3: "fst (get_package_version ?w3 ''steam'' ?s) = Some ''2.0''"
    and a3: "fst (get_available_version ?w3 ''steam'' (snd (get_package_version ?w3 ''steam'' ?s)))
             = Some ''1.9''"
    by code_simp+
  have i4: "fst (get_package_version ?w4 ''steam'' ?s) = Some ''1.0''"
    and a4: "fst (get_available_version ?w4 ''steam'' (snd (get_package_version ?w4 ''steam'' ?s)))
             = None"
    by code_simp+
  have both: "fst (check_updates_available w p s) = (a \<noteq> b, Some a, Some b)"
    if "fst (get_package_version w p s) = Some a"
       "fst (get_available_version w p (snd (get_package_version w p s))) = Some b"
       "a \<noteq> []" "b \<noteq> []"
    for w p s a b
  proof -
    obtain u i av s' where x: "check_updates_available w p s = ((u, i, av), s')"
      by (metis surj_pair)
    from check_updates_available_string_inequality [OF x] that
    have "i = Some a" "av = Some b" "u \<longleftrightarrow> a \<noteq> b"
      by auto
    with x show ?thesis by simp
  qed
  have absent: "fst (check_updates_available w p s) = (False, Some a, None)"
    if "fst (get_package_version w p s) = Some a"
       "fst (get_available_version w p (snd (get_package_version w p s))) = None"
    for w p s a
  proof -
    obtain u i av s' where x: "check_updates_available w p s = ((u, i, av), s')"
      by (metis surj_pair)
    from check_updates_available_string_inequality [OF x] that
    have "i = Some a" "av = None" "\<not> u"
      by auto
    with x show ?thesis by simp
  qed
  have r1: "fst (check_updates_available ?w1 ''steam'' ?s) = (False, Some ''1.0'', Some ''1.0'')"
    using both [OF i1 a1] by simp
  have r2: "fst (check_updates_available ?w2 ''steam'' ?s) = (True, Some ''1.0'', Some ''1.0.1'')"
    using both [OF i2 a2] by simp
  have r3: "fst (check_updates_available ?w3 ''steam'' ?s) = (True, Some ''2.0'', Some ''1.9'')"
    using both [OF i3 a3] by simp
  have r4: "fst (check_updates_available ?w4 ''steam'' ?s) = (False, Some ''1.0'', None)"
    using absent [OF i4 a4] by simp
  show ?thesis
    using r1 r2 r3 r4 by simp
qed

text \<open>
  C10. When the candidate line of \<open>apt-cache policy\<close> carries a version with an epoch,
  \<open>epoch:rest\<close>, the parsed available version is the epoch alone, since only the field
  between the first two colons of the line is taken, while the installed version is the
  whole string. The two differ, so a package whose installed and candidate versions are
  this same string is reported as having an update. The epoch is taken to be non-blank,
  as a Debian epoch is.
\<close>

theorem check_updates_available_epoch:
  assumes dpkg: "w (spawned s) (probe [''dpkg-query'', ''-W'', ''-f=${Version}'', pkg])
                   = Exits 0 (epoch @ '':'' @ rest) err1"
    and apt: "w (spawned s @ [probe [''dpkg-query'', ''-W'', ''-f=${Version}'', pkg]])
                (probe [''apt-cache'', ''policy'', pkg]) = Exits 0 out err2"
    and line: "find (py_in ''Candidate:'') (py_split (CHR 0x0A) out)
                 = Some (''  Candidate: '' @ epoch @ '':'' @ rest)"
    and ep: "CHR '':'' \<notin> set epoch" "py_strip epoch \<noteq> []"
  shows "fst (check_updates_available w pkg s)
           = (True, Some (py_strip (epoch @ '':'' @ rest)), Some (py_strip epoch))
         \<and> py_strip (epoch @ '':'' @ rest) \<noteq> py_strip epoch"
proof -
  let ?dq = "probe [''dpkg-query'', ''-W'', ''-f=${Version}'', pkg]"
  let ?v = "epoch @ '':'' @ rest"
  have g: "get_package_version w pkg s = (Some (py_strip ?v), s\<lparr>spawned := spawned s @ [?dq]\<rparr>)"
    using dpkg by (simp add: get_package_version_def subprocess_run_def probe_def)
  have h: "fst (get_available_version w pkg (s\<lparr>spawned := spawned s @ [?dq]\<rparr>))
           = Some (py_strip epoch)"
    using apt line second_field_candidate [OF ep(1)]
    by (simp add: get_available_version_def subprocess_run_def probe_def first_keyed_field_def)
  have colon: "CHR '':'' \<in> set (py_strip ?v)"
    by (rule py_strip_keeps) (simp_all add: isspace_def)
  have "CHR '':'' \<notin> set (py_strip epoch)"
    using ep(1) py_strip_subset by blast
  with colon have ne: "py_strip ?v \<noteq> py_strip epoch"
    by metis
  from colon have nonempty: "py_strip ?v \<noteq> []"
    by auto
  obtain s2 where h': "get_available_version w pkg (s\<lparr>spawned := spawned s @ [?dq]\<rparr>)
                         = (Some (py_strip epoch), s2)"
    using h by (metis fst_conv surj_pair)
  show ?thesis
    using g h' ne nonempty ep(2)
    by (simp add: check_updates_available_def)
qed

theorem check_updates_available_epoch_witness:
  "fst (check_updates_available
         (\<lambda>t c. if c = probe [''dpkg-query'', ''-W'', ''-f=${Version}'', ''steam'']
                 then Exits 0 ''1:2.3-1'' []
                 else Exits 0 ''steam:\<newline>  Installed: 1:2.3-1\<newline>  Candidate: 1:2.3-1\<newline>  Version table:'' [])
         ''steam'' (new_setup \<lparr>dry_run = False, auto_yes = False\<rparr> []))
     = (True, Some ''1:2.3-1'', Some ''1'')"
proof -
  let ?s = "new_setup \<lparr>dry_run = False, auto_yes = False\<rparr> []"
  let ?out = "''steam:\<newline>  Installed: 1:2.3-1\<newline>  Candidate: 1:2.3-1\<newline>  Version table:''"
  let ?w = "\<lambda>(t :: invocation list) c.
              if c = probe [''dpkg-query'', ''-W'', ''-f=${Version}'', ''steam'']
              then Exits 0 ''1:2.3-1'' []
              else Exits 0 ?out []"
  have dpkg: "?w (spawned ?s) (probe [''dpkg-query'', ''-W'', ''-f=${Version}'', ''steam''])
              = Exits 0 (''1'' @ '':'' @ ''2.3-1'') []"
    by simp
  have apt: "?w (spawned ?s @ [probe [''dpkg-query'', ''-W'', ''-f=${Version}'', ''steam'']])
               (probe [''apt-cache'', ''policy'', ''steam'']) = Exits 0 ?out []"
    by (simp add: probe_def)
  have line: "find (py_in ''Candidate:'') (py_split (CHR 0x0A) ?out)
              = Some (''  Candidate: '' @ ''1'' @ '':'' @ ''2.3-1'')"
    by code_simp
  have ep: "CHR '':'' \<notin> set ''1''" "py_strip ''1'' \<noteq> []"
    by code_simp+
  have st: "py_strip (''1'' @ '':'' @ ''2.3-1'') = ''1:2.3-1''" "py_strip ''1'' = ''1''"
    by code_simp+
  show ?thesis
    using check_updates_available_epoch [OF dpkg apt line ep] st by simp
qed

end
